theory Spec2Isabelle
  imports Complex_Main
begin

section \<open>JavaScript string primitives used by the service\<close>

text \<open>
  Strings are lists of characters. The three built-ins the source relies on are
  \<^verbatim>\<open>String.prototype.startsWith\<close>, \<^verbatim>\<open>String.prototype.includes\<close> and
  \<^verbatim>\<open>String.prototype.split\<close> with a one-character separator.
\<close>

fun startsWith :: "string \<Rightarrow> string \<Rightarrow> bool" where
  "startsWith s [] = True"
| "startsWith [] (p # ps) = False"
| "startsWith (c # cs) (p # ps) = (c = p \<and> startsWith cs ps)"

fun includes_str :: "string \<Rightarrow> string \<Rightarrow> bool" where
  "includes_str [] p = (p = [])"
| "includes_str (c # cs) p = (startsWith (c # cs) p \<or> includes_str cs p)"

text \<open>\<^verbatim>\<open>s.split(sep)\<close>: never the empty array; \<^verbatim>\<open>''.split(':')\<close> is \<^verbatim>\<open>['']\<close>.\<close>

fun split :: "char \<Rightarrow> string \<Rightarrow> string list" where
  "split sep [] = [[]]"
| "split sep (c # cs) =
     (if c = sep then [] # split sep cs
      else (c # hd (split sep cs)) # tl (split sep cs))"


text \<open>\<^verbatim>\<open>v || ''\<close> for an environment variable that may be unset.\<close>

definition or_empty :: "string option \<Rightarrow> string" where
  "or_empty v = (case v of None \<Rightarrow> [] | Some s \<Rightarrow> s)"

section \<open>Base64 decoding of the credentials\<close>







section \<open>The Basic-auth middleware (src/middleware/basicAuth.js)\<close>





section \<open>Recipient addressing\<close>

definition domain_suffix :: string where
  "domain_suffix = ''@s.whatsapp.net''"

text \<open>
  The expression
  \<^verbatim>\<open>number.includes('@s.whatsapp.net') ? number : `${number}@s.whatsapp.net`\<close>
  appears unchanged in the three send handlers.
\<close>

definition to_jid :: "string \<Rightarrow> string" where
  "to_jid number = (if includes_str number domain_suffix then number else number @ domain_suffix)"

section \<open>Data model\<close>

text \<open>
  Instance keys are the caller's strings; a missing query or body field and the empty
  string are both falsy in the source and are both the empty string here. Keys are taken
  to be plain path segments. A socket is identified by its creation number. Times are a
  \<^verbatim>\<open>Date\<close>'s value, milliseconds since the epoch.

  The three registries are plain objects, so a read \<^verbatim>\<open>obj[k]\<close> finds the members that
  every object inherits when \<open>k\<close> names one and the object holds no entry of its own.
  \<^verbatim>\<open>initWhatsApp\<close> returns early for such a key, so no socket, lifecycle event or timer
  ever exists for it, and the lifecycle handlers below are written for the other keys.
  The send routes, which a request with any key reaches, read the registry through
  \<open>read_prop\<close>.
\<close>

type_synonym key = string
type_synonym sock = nat
type_synonym time = int

definition object_prototype_members :: "key list" where
  "object_prototype_members =
     [''constructor'', ''toString'', ''toLocaleString'', ''valueOf'', ''hasOwnProperty'',
      ''isPrototypeOf'', ''propertyIsEnumerable'', ''__proto__'', ''__defineGetter__'',
      ''__defineSetter__'', ''__lookupGetter__'', ''__lookupSetter__'']"

definition inherited :: "key \<Rightarrow> bool" where
  "inherited k = (k \<in> set object_prototype_members)"

text \<open>
  What \<^verbatim>\<open>obj[k]\<close> reads: the object's own entry, else an inherited member (a function
  or the prototype itself, truthy in either case), else \<^verbatim>\<open>undefined\<close>.
\<close>

datatype 'a js_read = Missing | Inherited | Own 'a

definition read_prop :: "(key \<rightharpoonup> 'a) \<Rightarrow> key \<Rightarrow> 'a js_read" where
  "read_prop obj k =
     (case obj k of
        Some v \<Rightarrow> Own v
      | None \<Rightarrow> if inherited k then Inherited else Missing)"

text \<open>
  The durable record (src/models/Session.js), keyed by \<^verbatim>\<open>instanceKey\<close>: null or absent
  fields are \<open>None\<close>. The field \<^verbatim>\<open>createdAt\<close> is written once by its default and never
  read, and \<^verbatim>\<open>lastConnected\<close> is not part of the schema; both are left out.
\<close>

record session_doc =
  connected :: bool
  qr :: "string option"
  qrGeneratedAt :: "time option"

definition default_doc :: session_doc where
  "default_doc = \<lparr>connected = False, qr = None, qrGeneratedAt = None\<rparr>"

text \<open>
  The update object of \<^verbatim>\<open>findOneAndUpdate\<close>: a field that the object does not mention
  is \<open>None\<close> and keeps its value; a mentioned field is set, possibly to null.
\<close>

record doc_update =
  set_connected :: "bool option"
  set_qr :: "string option option"
  set_qrGeneratedAt :: "time option option"

definition apply_update :: "doc_update \<Rightarrow> session_doc \<Rightarrow> session_doc" where
  "apply_update u d =
     \<lparr>connected = (case set_connected u of None \<Rightarrow> connected d | Some b \<Rightarrow> b),
      qr = (case set_qr u of None \<Rightarrow> qr d | Some q \<Rightarrow> q),
      qrGeneratedAt = (case set_qrGeneratedAt u of None \<Rightarrow> qrGeneratedAt d | Some t \<Rightarrow> t)\<rparr>"

type_synonym store = "key \<rightharpoonup> session_doc"

definition findOneAndUpdate :: "key \<Rightarrow> doc_update \<Rightarrow> bool \<Rightarrow> store \<Rightarrow> store" where
  "findOneAndUpdate k u upsert d =
     (case d k of
        Some doc \<Rightarrow> d(k \<mapsto> apply_update u doc)
      | None \<Rightarrow> if upsert then d(k \<mapsto> apply_update u default_doc) else d)"

definition findOneAndDelete :: "key \<Rightarrow> store \<Rightarrow> store" where
  "findOneAndDelete k d = d(k := None)"

text \<open>
  A store call that rejects is caught and logged by every caller; the write is then
  skipped. \<open>ok\<close> is the outcome of the call.
\<close>

definition attempt :: "bool \<Rightarrow> ('a \<Rightarrow> 'a) \<Rightarrow> 'a \<Rightarrow> 'a" where
  "attempt ok f x = (if ok then f x else x)"

text \<open>The three update objects the source writes.\<close>

definition upd_reset :: doc_update where
  "upd_reset = \<lparr>set_connected = Some False, set_qr = Some None, set_qrGeneratedAt = Some None\<rparr>"

definition upd_open :: doc_update where
  "upd_open = \<lparr>set_connected = Some True, set_qr = Some None, set_qrGeneratedAt = Some None\<rparr>"

definition upd_qr :: "string \<Rightarrow> time \<Rightarrow> doc_update" where
  "upd_qr img t =
     \<lparr>set_connected = Some False, set_qr = Some (Some img), set_qrGeneratedAt = Some (Some t)\<rparr>"

definition upd_expire :: doc_update where
  "upd_expire = \<lparr>set_connected = None, set_qr = Some None, set_qrGeneratedAt = Some None\<rparr>"

text \<open>The cache entry \<^verbatim>\<open>qrCodes[instanceKey] = { qr, generatedAt }\<close>.\<close>

record qr_data =
  image :: string
  generatedAt :: time

datatype payload =
    Text string
  | Document string string string string

text \<open>
  The process state: the three global objects of the source, the store, the
  \<^verbatim>\<open>sessions/<key>\<close> directories, the reconnect timers set and not yet fired (key and
  delay), the creation sequences suspended at \<^verbatim>\<open>await useMultiFileAuthState\<close>, and a
  record of the protocol-client calls made: sockets created, \<^verbatim>\<open>logout()\<close> and
  \<^verbatim>\<open>sendMessage()\<close> calls.
\<close>

record state =
  sessions :: "key \<rightharpoonup> sock"
  qrCodes :: "key \<rightharpoonup> qr_data"
  initializingSessions :: "key set"
  db :: store
  folders :: "key set"
  timers :: "(key \<times> nat) list"
  pending :: "key list"
  nextSock :: nat
  logoutCalls :: "sock list"
  sendCalls :: "(sock \<times> string \<times> payload) list"

definition initial :: state where
  "initial = \<lparr>sessions = Map.empty, qrCodes = Map.empty, initializingSessions = {},
     db = Map.empty, folders = {}, timers = [], pending = [], nextSock = 0,
     logoutCalls = [], sendCalls = []\<rparr>"

text \<open>JSON replies, by shape.\<close>

datatype reply =
    Reply nat bool string "bool option"
  | ReplyRestart string
  | ReplyQr string int
  | ReplyStatus nat string string
  | ReplyHealth nat
  | ReplyEmpty nat

section \<open>initWhatsApp\<close>

text \<open>
  The function has one suspension point, \<^verbatim>\<open>await useMultiFileAuthState(folder)\<close>.
  \<open>init_enter\<close> is the code up to it and \<open>init_resume\<close> the code after it. The
  early \<^verbatim>\<open>return sessions[instanceKey]\<close> and every \<^verbatim>\<open>throw\<close> sit inside the
  \<^verbatim>\<open>try\<close> whose \<^verbatim>\<open>finally\<close> deletes \<^verbatim>\<open>initializingSessions[instanceKey]\<close>; the
  \<^verbatim>\<open>catch\<close> deletes the registry and cache entries first.
\<close>

datatype init_result = Returned "sock option" | Threw | Suspended

definition init_finally :: "key \<Rightarrow> state \<Rightarrow> state" where
  "init_finally k s = s\<lparr>initializingSessions := initializingSessions s - {k}\<rparr>"

definition init_catch :: "key \<Rightarrow> state \<Rightarrow> state" where
  "init_catch k s = s\<lparr>sessions := (sessions s)(k := None), qrCodes := (qrCodes s)(k := None)\<rparr>"

definition init_enter :: "key \<Rightarrow> bool \<Rightarrow> state \<Rightarrow> init_result \<times> state" where
  "init_enter k mkdirOk s =
     (if k = [] then (Threw, init_finally k (init_catch k s))
      else if sessions s k \<noteq> None \<or> k \<in> initializingSessions s
      then (Returned (sessions s k), init_finally k s)
      else
        (let s1 = s\<lparr>initializingSessions := insert k (initializingSessions s)\<rparr>
         in if k \<notin> folders s1 \<and> \<not> mkdirOk then (Threw, init_finally k (init_catch k s1))
            else (Suspended, s1\<lparr>folders := insert k (folders s1), pending := pending s1 @ [k]\<rparr>)))"

definition init_resume :: "key \<Rightarrow> bool \<Rightarrow> bool \<Rightarrow> state \<Rightarrow> init_result \<times> state" where
  "init_resume k authOk socketOk s =
     (let s1 = s\<lparr>pending := remove1 k (pending s)\<rparr>
      in if \<not> authOk \<or> \<not> socketOk then (Threw, init_finally k (init_catch k s1))
         else (Returned (Some (nextSock s1)),
               init_finally k (s1\<lparr>sessions := (sessions s1)(k \<mapsto> nextSock s1),
                                   nextSock := Suc (nextSock s1)\<rparr>)))"

section \<open>The connection.update handler\<close>

text \<open>
  An update carries \<^verbatim>\<open>connection\<close>, \<^verbatim>\<open>qr\<close> and
  \<^verbatim>\<open>lastDisconnect?.error?.output?.statusCode\<close>, each possibly undefined. The handler
  closes over \<^verbatim>\<open>instanceKey\<close>, so it acts on whatever the registry holds for the key
  when the event arrives.
\<close>

datatype connection = Connecting | Open | Close

record conn_update =
  connection :: "connection option"
  statusCode :: "nat option"
  qr_text :: "string option"

text \<open>
  What the outside world answers while one update is handled: the rendered image of
  \<^verbatim>\<open>qrcode.toDataURL\<close> (\<open>None\<close> when it rejects), the two clock readings of the
  qr branch, and the outcome of each store and file-system call.
\<close>

record conn_io =
  rendered :: "string option"
  tCache :: time
  tStore :: time
  qrStoreOk :: bool
  openStoreOk :: bool
  closeStoreOk :: bool
  rmOk :: bool
  deleteOk :: bool

definition loggedOut :: nat where
  "loggedOut = 401"

definition reconnect_delay :: nat where
  "reconnect_delay = 5000"

definition on_qr :: "key \<Rightarrow> conn_update \<Rightarrow> conn_io \<Rightarrow> state \<Rightarrow> state" where
  "on_qr k u io s =
     (case qr_text u of
        None \<Rightarrow> s
      | Some q \<Rightarrow>
          if q = [] then s
          else (case rendered io of
                  None \<Rightarrow> s
                | Some img \<Rightarrow>
                    attempt (qrStoreOk io)
                      (\<lambda>s'. s'\<lparr>db := findOneAndUpdate k (upd_qr img (tStore io)) True (db s')\<rparr>)
                      (s\<lparr>qrCodes := (qrCodes s)(k \<mapsto> \<lparr>image = img, generatedAt = tCache io\<rparr>)\<rparr>)))"

definition on_open :: "key \<Rightarrow> conn_update \<Rightarrow> conn_io \<Rightarrow> state \<Rightarrow> state" where
  "on_open k u io s =
     (if connection u = Some Open
      then attempt (openStoreOk io)
             (\<lambda>s'. s'\<lparr>db := findOneAndUpdate k upd_open True (db s')\<rparr>)
             (s\<lparr>qrCodes := (qrCodes s)(k := None)\<rparr>)
      else s)"

definition close_cleanup :: "key \<Rightarrow> conn_io \<Rightarrow> state \<Rightarrow> state" where
  "close_cleanup k io s =
     (if k \<in> folders s \<and> \<not> rmOk io then s
      else attempt (deleteOk io) (\<lambda>s'. s'\<lparr>db := findOneAndDelete k (db s')\<rparr>)
             (s\<lparr>folders := folders s - {k}\<rparr>))"

definition on_close :: "key \<Rightarrow> conn_update \<Rightarrow> conn_io \<Rightarrow> state \<Rightarrow> state" where
  "on_close k u io s =
     (if connection u = Some Close
      then
        (let shouldReconnect = (statusCode u \<noteq> Some loggedOut);
             s1 = s\<lparr>sessions := (sessions s)(k := None), qrCodes := (qrCodes s)(k := None)\<rparr>;
             s2 = attempt (closeStoreOk io)
                    (\<lambda>s'. s'\<lparr>db := findOneAndUpdate k upd_reset False (db s')\<rparr>) s1
         in if shouldReconnect then s2\<lparr>timers := timers s2 @ [(k, reconnect_delay)]\<rparr>
            else close_cleanup k io s2)
      else s)"

definition connection_update :: "key \<Rightarrow> conn_update \<Rightarrow> conn_io \<Rightarrow> state \<Rightarrow> state" where
  "connection_update k u io s = on_close k u io (on_open k u io (on_qr k u io s))"

text \<open>The timer callback \<^verbatim>\<open>() => { initWhatsApp(instanceKey) }\<close>, not awaited.\<close>

definition timer_fire :: "key \<Rightarrow> bool \<Rightarrow> state \<Rightarrow> state" where
  "timer_fire k mkdirOk s =
     (if (k, reconnect_delay) \<in> set (timers s)
      then snd (init_enter k mkdirOk (s\<lparr>timers := remove1 (k, reconnect_delay) (timers s)\<rparr>))
      else s)"

section \<open>logoutInstance\<close>

text \<open>
  \<^verbatim>\<open>sock.logout()\<close> is called when the registry holds a handle; whether it resolves or
  rejects, the teardown continues the same way. The directory removal and the store
  deletion have a \<^verbatim>\<open>try\<close> each.
\<close>

definition logoutInstance :: "key \<Rightarrow> bool \<Rightarrow> bool \<Rightarrow> state \<Rightarrow> (string \<times> string) \<times> state" where
  "logoutInstance k rm_ok delete_ok s =
     (if k = [] then ((''error'', ''instanceKey is required''), s)
      else
        (let s1 = (case sessions s k of
                     None \<Rightarrow> s
                   | Some sock \<Rightarrow> s\<lparr>logoutCalls := logoutCalls s @ [sock]\<rparr>);
             s2 = s1\<lparr>sessions := (sessions s1)(k := None), qrCodes := (qrCodes s1)(k := None)\<rparr>;
             s3 = (if k \<in> folders s2 \<and> rm_ok then s2\<lparr>folders := folders s2 - {k}\<rparr> else s2);
             s4 = attempt delete_ok (\<lambda>s'. s'\<lparr>db := findOneAndDelete k (db s')\<rparr>) s3
         in ((''success'', ''Instance '' @ k @ '' logged out and session removed.''), s4)))"

definition logout_route :: "key \<Rightarrow> bool \<Rightarrow> bool \<Rightarrow> state \<Rightarrow> reply \<times> state" where
  "logout_route k rm_ok delete_ok s =
     (if k = [] then (ReplyStatus 400 ''error'' ''Missing instanceKey in query.'', s)
      else (case logoutInstance k rm_ok delete_ok s of
              ((st, msg), s') \<Rightarrow> (ReplyStatus 200 st msg, s')))"

section \<open>The start-session route\<close>

text \<open>
  The handler replies at once on its three early exits. Otherwise it upserts the
  placeholder and awaits \<^verbatim>\<open>initWhatsApp\<close>; while that call is suspended there is no
  reply yet (\<open>None\<close>), and \<open>start_session_reply\<close> is the reply sent when it settles.
\<close>

definition is_connected :: "session_doc option \<Rightarrow> bool" where
  "is_connected sessionData = (case sessionData of None \<Rightarrow> False | Some d \<Rightarrow> connected d)"

definition start_session_reply :: "key \<Rightarrow> init_result \<Rightarrow> reply option" where
  "start_session_reply k r =
     (case r of
        Suspended \<Rightarrow> None
      | Threw \<Rightarrow> Some (Reply 500 False ''Failed to start session'' None)
      | Returned _ \<Rightarrow>
          Some (Reply 200 True (''Session started for '' @ k @ ''. Please scan QR code.'')
                  (Some False)))"

definition start_session ::
  "key \<Rightarrow> bool \<Rightarrow> bool \<Rightarrow> bool \<Rightarrow> state \<Rightarrow> reply option \<times> state" where
  "start_session k findOk upsertOk mkdirOk s =
     (if k = [] then (Some (Reply 400 False ''instanceKey is required'' None), s)
      else if sessions s k \<noteq> None \<and> findOk \<and> is_connected (db s k)
      then (Some (Reply 200 True (''Session '' @ k @ '' is already connected'') (Some True)), s)
      else if k \<in> initializingSessions s
      then (Some (Reply 200 True (''Session '' @ k @ '' is currently initializing...'')
                    (Some False)), s)
      else
        (let s1 = attempt upsertOk
                    (\<lambda>s'. s'\<lparr>db := findOneAndUpdate k upd_reset True (db s')\<rparr>) s
         in case init_enter k mkdirOk s1 of (r, s2) \<Rightarrow> (start_session_reply k r, s2)))"

section \<open>The qr route\<close>

text \<open>
  \<^verbatim>\<open>session\<close> and \<^verbatim>\<open>sock\<close> are assigned in one \<^verbatim>\<open>try\<close>, the registry read after the
  awaited store read: when \<^verbatim>\<open>findOne\<close> rejects, both stay undefined. The age is the
  difference of two \<^verbatim>\<open>Date\<close>s, a whole number of milliseconds, divided by 1000; for
  such a quotient the comparison with 60 and \<^verbatim>\<open>Math.floor\<close> give in double precision
  what they give on the exact fraction, which is what the model computes.
\<close>

definition truthy :: "string option \<Rightarrow> bool" where
  "truthy v = (case v of None \<Rightarrow> False | Some x \<Rightarrow> x \<noteq> [])"

definition resolve_qr :: "qr_data option \<Rightarrow> session_doc option \<Rightarrow> qr_data option" where
  "resolve_qr cached session =
     (case cached of
        Some e \<Rightarrow> Some e
      | None \<Rightarrow>
          (case session of
             None \<Rightarrow> None
           | Some d \<Rightarrow>
               (case (qr d, qrGeneratedAt d) of
                  (Some q, Some t) \<Rightarrow>
                     if q \<noteq> [] then Some \<lparr>image = q, generatedAt = t\<rparr> else None
                | _ \<Rightarrow> None)))"

definition get_qr :: "key \<Rightarrow> time \<Rightarrow> bool \<Rightarrow> bool \<Rightarrow> state \<Rightarrow> reply \<times> state" where
  "get_qr k now findOk updateOk s =
     (if k = [] then (Reply 400 False ''instanceKey is required'' None, s)
      else
        (let session = (if findOk then db s k else None);
             sock = (if findOk then sessions s k else None)
         in if is_connected session \<and> sock \<noteq> None
            then (Reply 200 True ''Already connected to WhatsApp'' (Some True), s)
            else
              (case resolve_qr (qrCodes s k) session of
                 None \<Rightarrow>
                   (ReplyRestart ''No QR code available. Please start the session first.'', s)
               | Some qrData \<Rightarrow>
                   (let qrAge = real_of_int (now - generatedAt qrData) / 1000
                    in if qrAge > 60
                       then (ReplyRestart ''QR code expired. Please restart the session.'',
                             attempt updateOk
                               (\<lambda>s'. s'\<lparr>db := findOneAndUpdate k upd_expire False (db s')\<rparr>)
                               (s\<lparr>qrCodes := (qrCodes s)(k := None)\<rparr>))
                       else (ReplyQr (image qrData) (max 0 (60 - \<lfloor>qrAge\<rfloor>)), s)))))"

section \<open>The send routes\<close>

text \<open>
  Each handler validates its fields, reads \<^verbatim>\<open>sessions[instanceKey]\<close>, and calls
  \<^verbatim>\<open>sock.sendMessage(jid, content)\<close>; \<open>sendOk\<close> is whether that call resolves. The
  call is recorded in \<open>sendCalls\<close> either way. When the read finds an inherited
  member, the value is truthy and passes the check, and it has no \<^verbatim>\<open>sendMessage\<close>: the
  call throws inside the handler's \<^verbatim>\<open>try\<close> before it reaches any socket, and the handler
  answers with its send failure. The removal of the uploaded temporary file is not part
  of the model.
\<close>

definition not_connected :: reply where
  "not_connected = Reply 400 False ''Session not connected. Please scan QR code first.'' None"

definition send_message :: "key \<Rightarrow> string \<Rightarrow> string \<Rightarrow> bool \<Rightarrow> state \<Rightarrow> reply \<times> state" where
  "send_message k number message sendOk s =
     (if k = [] \<or> number = [] \<or> message = []
      then (Reply 400 False ''instanceKey, number, and message are required'' None, s)
      else (case read_prop (sessions s) k of
              Missing \<Rightarrow> (not_connected, s)
            | Inherited \<Rightarrow> (Reply 500 False ''Failed to send message to WhatsApp'' None, s)
            | Own sock \<Rightarrow>
                (let jid = to_jid number;
                     s' = s\<lparr>sendCalls := sendCalls s @ [(sock, jid, Text message)]\<rparr>
                 in if sendOk then (Reply 200 True ''Message sent successfully'' None, s')
                    else (Reply 500 False ''Failed to send message to WhatsApp'' None, s'))))"

text \<open>
  For a file by URL, \<open>download\<close> is the fetched body with its \<^verbatim>\<open>content-type\<close> header,
  or \<open>None\<close> when the fetch fails; \<open>mime_extension\<close> is the library's table.
\<close>

definition or_else :: "string \<Rightarrow> string \<Rightarrow> string" where
  "or_else v d = (if v = [] then d else v)"

definition send_file_url ::
  "(string \<Rightarrow> string option) \<Rightarrow> key \<Rightarrow> string \<Rightarrow> string \<Rightarrow> string \<Rightarrow> string \<Rightarrow>
   (string \<times> string option) option \<Rightarrow> bool \<Rightarrow> state \<Rightarrow> reply \<times> state" where
  "send_file_url mime_extension k number fileUrl caption customFileName download sendOk s =
     (if k = [] \<or> number = [] \<or> fileUrl = []
      then (Reply 400 False ''instanceKey, number, and fileUrl are required'' None, s)
      else (case read_prop (sessions s) k of
              Missing \<Rightarrow> (not_connected, s)
            | Inherited \<Rightarrow>
                (case download of
                   None \<Rightarrow> (Reply 500 False ''Failed to download file from URL'' None, s)
                 | Some fetched \<Rightarrow> (Reply 500 False ''Failed to send file to WhatsApp'' None, s))
            | Own sock \<Rightarrow>
                (case download of
                   None \<Rightarrow> (Reply 500 False ''Failed to download file from URL'' None, s)
                 | Some (buffer, contentType) \<Rightarrow>
                     (let mimeType = or_else (or_empty contentType) ''application/octet-stream'';
                          fileExt = or_else (or_empty (mime_extension mimeType)) ''pdf'';
                          fileName = or_else customFileName (''file.'' @ fileExt);
                          jid = to_jid number;
                          s' = s\<lparr>sendCalls := sendCalls s @
                                  [(sock, jid, Document buffer mimeType fileName caption)]\<rparr>
                      in if sendOk
                         then (Reply 200 True ''File sent successfully from URL'' None, s')
                         else (Reply 500 False ''Failed to send file to WhatsApp'' None, s')))))"

record upload =
  mimetype :: string
  originalname :: string

definition send_file ::
  "key \<Rightarrow> string \<Rightarrow> string \<Rightarrow> upload option \<Rightarrow> string option \<Rightarrow> bool \<Rightarrow> state \<Rightarrow>
   reply \<times> state" where
  "send_file k number caption file readBuffer sendOk s =
     (case file of
        None \<Rightarrow> (Reply 400 False ''instanceKey, number, and file are required'' None, s)
      | Some f \<Rightarrow>
          if k = [] \<or> number = []
          then (Reply 400 False ''instanceKey, number, and file are required'' None, s)
          else (case read_prop (sessions s) k of
                  Missing \<Rightarrow> (not_connected, s)
                | Inherited \<Rightarrow>
                    (case readBuffer of
                       None \<Rightarrow> (Reply 500 False ''Failed to read uploaded file'' None, s)
                     | Some buffer \<Rightarrow>
                         (Reply 500 False ''Failed to send file to WhatsApp'' None, s))
                | Own sock \<Rightarrow>
                    (case readBuffer of
                       None \<Rightarrow> (Reply 500 False ''Failed to read uploaded file'' None, s)
                     | Some buffer \<Rightarrow>
                         (let mimeType = or_else (mimetype f) ''application/octet-stream'';
                              fileName = or_else (originalname f) ''file'';
                              jid = to_jid number;
                              s' = s\<lparr>sendCalls := sendCalls s @
                                      [(sock, jid, Document buffer mimeType fileName caption)]\<rparr>
                          in if sendOk
                             then (Reply 200 True ''File sent successfully from upload'' None, s')
                             else (Reply 500 False ''Failed to send file to WhatsApp'' None, s')))))"

section \<open>The application: middleware, then routes\<close>

text \<open>
  The middleware runs in the order of its registration: \<^verbatim>\<open>cors()\<close>,
  \<^verbatim>\<open>express.json()\<close>, then \<^verbatim>\<open>basicAuth\<close>, which is registered before every route,
  the health route included. With its default options \<^verbatim>\<open>cors()\<close> ends every
  \<^verbatim>\<open>OPTIONS\<close> request itself with status 204 and passes every other request on.
  \<^verbatim>\<open>express.json()\<close> passes a request on when it has no JSON body or one that parses
  (\<open>req_bodyOk\<close>); otherwise it raises an error, which skips the remaining middleware
  and routes and is answered by the error handler registered last, with status 500.
  \<open>req_route\<close> is the handler Express matches the method and path to; the outcomes
  of the calls a handler makes are collected in \<open>req_io\<close>.
\<close>

datatype http_method = GET | POST | OPTIONS | OtherMethod






section \<open>The process as a transition system\<close>

text \<open>
  A handler runs uninterrupted between two of its \<^verbatim>\<open>await\<close>s, and other handlers may
  run in between. \<open>InitCall\<close> and \<open>InitResume\<close> are the two uninterrupted parts of
  \<^verbatim>\<open>initWhatsApp\<close>, the first for a call by the start-up loader; \<open>LoadFailed\<close> is
  the loader's write after a failed creation. The other handlers appear twice: as one
  event that runs the handler from its first statement to its last, and through the single
  effects they are composed of (\<open>Effect\<close>), which may occur in any order and at any
  time; a run in which a handler is interrupted at an \<^verbatim>\<open>await\<close> is a sequence of such
  effects. A start after a restart finds the store and the directories as the last run
  left them.
\<close>

datatype doc_write = WReset | WOpen | WQr string time | WExpire

definition update_of :: "doc_write \<Rightarrow> doc_update" where
  "update_of w =
     (case w of
        WReset \<Rightarrow> upd_reset
      | WOpen \<Rightarrow> upd_open
      | WQr img t \<Rightarrow> upd_qr img t
      | WExpire \<Rightarrow> upd_expire)"

datatype effect =
    StoreUpdate doc_write bool
  | StoreDelete
  | CacheSet string time
  | CacheDelete
  | RegistryDelete
  | FolderRemove
  | TimerSet
  | LogoutCall sock
  | SendCall sock string payload

fun apply_effect :: "key \<Rightarrow> effect \<Rightarrow> state \<Rightarrow> state" where
  "apply_effect k (StoreUpdate w upsert) s =
     s\<lparr>db := findOneAndUpdate k (update_of w) upsert (db s)\<rparr>"
| "apply_effect k StoreDelete s = s\<lparr>db := findOneAndDelete k (db s)\<rparr>"
| "apply_effect k (CacheSet img t) s =
     s\<lparr>qrCodes := (qrCodes s)(k \<mapsto> \<lparr>image = img, generatedAt = t\<rparr>)\<rparr>"
| "apply_effect k CacheDelete s = s\<lparr>qrCodes := (qrCodes s)(k := None)\<rparr>"
| "apply_effect k RegistryDelete s = s\<lparr>sessions := (sessions s)(k := None)\<rparr>"
| "apply_effect k FolderRemove s = s\<lparr>folders := folders s - {k}\<rparr>"
| "apply_effect k TimerSet s = s\<lparr>timers := timers s @ [(k, reconnect_delay)]\<rparr>"
| "apply_effect k (LogoutCall c) s = s\<lparr>logoutCalls := logoutCalls s @ [c]\<rparr>"
| "apply_effect k (SendCall c jid content) s =
     s\<lparr>sendCalls := sendCalls s @ [(c, jid, content)]\<rparr>"

datatype event =
    StartSession key bool bool bool
  | InitCall key bool
  | InitResume key bool bool
  | TimerFire key bool
  | ConnUpdate key conn_update conn_io
  | Logout key bool bool
  | GetQr key time bool bool
  | LoadFailed key bool
  | SendMessage key string string bool
  | Effect key effect

fun step :: "event \<Rightarrow> state \<Rightarrow> state" where
  "step (StartSession k findOk upsertOk mkdirOk) s = snd (start_session k findOk upsertOk mkdirOk s)"
| "step (InitCall k mkdirOk) s = snd (init_enter k mkdirOk s)"
| "step (InitResume k authOk socketOk) s =
     (if k \<in> set (pending s) then snd (init_resume k authOk socketOk s) else s)"
| "step (TimerFire k mkdirOk) s = timer_fire k mkdirOk s"
| "step (ConnUpdate k u io) s = connection_update k u io s"
| "step (Logout k rm_ok delete_ok) s = snd (logout_route k rm_ok delete_ok s)"
| "step (GetQr k now findOk updateOk) s = snd (get_qr k now findOk updateOk s)"
| "step (LoadFailed k ok) s =
     attempt ok (\<lambda>s'. s'\<lparr>db := findOneAndUpdate k upd_reset False (db s')\<rparr>) s"
| "step (SendMessage k number message sendOk) s = snd (send_message k number message sendOk s)"
| "step (Effect k e) s = apply_effect k e s"

definition run :: "event list \<Rightarrow> state \<Rightarrow> state" where
  "run evs s = fold step evs s"

definition boot :: "store \<Rightarrow> key set \<Rightarrow> state" where
  "boot d f = initial\<lparr>db := d, folders := f\<rparr>"

section \<open>The addressing form, as the specification words it\<close>

text \<open>
  \<^verbatim>\<open>String.prototype.endsWith\<close>. The specification calls a recipient normalised when
  it is in the protocol's addressing form, the domain suffix being appended when missing:
  a recipient is in that form when it ends with the suffix. \<open>spec_to_jid\<close> is the
  normalisation read that way, to be compared with \<open>to_jid\<close>.
\<close>

definition endsWith :: "string \<Rightarrow> string \<Rightarrow> bool" where
  "endsWith s p = startsWith (rev s) (rev p)"

definition addressing_form :: "string \<Rightarrow> bool" where
  "addressing_form n = endsWith n domain_suffix"

definition spec_to_jid :: "string \<Rightarrow> string" where
  "spec_to_jid n = (if addressing_form n then n else n @ domain_suffix)"

section \<open>The pair a Basic credential carries\<close>


section \<open>Invariants and sample runs\<close>

text \<open>
  A durable record is well formed when it is not both connected and holding a pairing
  payload, and holds an issue time exactly when it holds a payload.
\<close>

definition doc_ok :: "session_doc \<Rightarrow> bool" where
  "doc_ok d =
     (\<not> (connected d \<and> truthy (qr d)) \<and> (qrGeneratedAt d \<noteq> None \<longleftrightarrow> qr d \<noteq> None))"

definition store_inv :: "store \<Rightarrow> bool" where
  "store_inv d = (\<forall>k doc. d k = Some doc \<longrightarrow> doc_ok doc)"

text \<open>A key under the creation guard is non-empty and has no live handle.\<close>

definition guard_inv :: "state \<Rightarrow> bool" where
  "guard_inv s = (\<forall>k \<in> initializingSessions s. k \<noteq> [] \<and> sessions s k = None)"

text \<open>Events and answers of the outside world used in the sample runs.\<close>

definition conn_ok :: conn_io where
  "conn_ok = \<lparr>rendered = Some ''data:QR'', tCache = 1000, tStore = 1000, qrStoreOk = True,
     openStoreOk = True, closeStoreOk = True, rmOk = True, deleteOk = True\<rparr>"

definition qr_event :: "string \<Rightarrow> conn_update" where
  "qr_event q = \<lparr>connection = None, statusCode = None, qr_text = Some q\<rparr>"

definition open_event :: conn_update where
  "open_event = \<lparr>connection = Some Open, statusCode = None, qr_text = None\<rparr>"

definition close_event :: "nat option \<Rightarrow> conn_update" where
  "close_event sc = \<lparr>connection = Some Close, statusCode = sc, qr_text = None\<rparr>"

text \<open>Start, socket creation, pairing payload, open: the key alice ends connected.\<close>

definition pair_alice :: "event list" where
  "pair_alice = [StartSession ''alice'' True True True, InitResume ''alice'' True True,
     ConnUpdate ''alice'' (qr_event ''q1'') conn_ok, ConnUpdate ''alice'' open_event conn_ok]"

text \<open>
  The connection of alice then closes for a reason other than a remote logout (428,
  connection closed): the handle is gone and a reconnect timer is set.
\<close>

definition reconnect_pending :: "event list" where
  "reconnect_pending = pair_alice @ [ConnUpdate ''alice'' (close_event (Some 428)) conn_ok]"

section \<open>Facts about the string primitives\<close>

lemma startsWith_iff: "startsWith s p \<longleftrightarrow> (\<exists>r. s = p @ r)"
  by (induction s p rule: startsWith.induct) auto

lemma includes_iff: "includes_str s p \<longleftrightarrow> (\<exists>a b. s = a @ p @ b)"
proof (induction s)
  case Nil
  then show ?case by auto
next
  case (Cons c cs)
  show ?case
  proof
    assume "includes_str (c # cs) p"
    then consider "startsWith (c # cs) p" | "includes_str cs p" by auto
    then show "\<exists>a b. c # cs = a @ p @ b"
    proof cases
      case 1
      then obtain r where "c # cs = p @ r" by (auto simp: startsWith_iff)
      then have "c # cs = [] @ p @ r" by simp
      then show ?thesis by blast
    next
      case 2
      then obtain a b where "cs = a @ p @ b" using Cons.IH by auto
      then have "c # cs = (c # a) @ p @ b" by simp
      then show ?thesis by blast
    qed
  next
    assume "\<exists>a b. c # cs = a @ p @ b"
    then obtain a b where ab: "c # cs = a @ p @ b" by auto
    show "includes_str (c # cs) p"
    proof (cases a)
      case Nil
      with ab have "startsWith (c # cs) p" by (auto simp: startsWith_iff)
      then show ?thesis by simp
    next
      case (Cons x a')
      with ab have "cs = a' @ p @ b" by simp
      then have "includes_str cs p" using Cons.IH by auto
      then show ?thesis by simp
    qed
  qed
qed

lemma endsWith_iff: "endsWith s p \<longleftrightarrow> (\<exists>a. s = a @ p)"
proof
  assume "endsWith s p"
  then obtain r where "rev s = rev p @ r"
    by (auto simp: endsWith_def startsWith_iff)
  then have "s = rev r @ p"
    by (metis rev_append rev_rev_ident)
  then show "\<exists>a. s = a @ p" by blast
next
  assume "\<exists>a. s = a @ p"
  then show "endsWith s p"
    by (auto simp: endsWith_def startsWith_iff)
qed

lemma split_no_sep: "sep \<notin> set a \<Longrightarrow> split sep a = [a]"
  by (induction a) auto


section \<open>Recipient normalisation\<close>

lemma to_jid_containment:
  "to_jid n = (if (\<exists>a b. n = a @ domain_suffix @ b) then n else n @ domain_suffix)"
  by (simp add: to_jid_def includes_iff)

lemma to_jid_addressing_form: "addressing_form n \<Longrightarrow> to_jid n = n"
proof -
  assume "addressing_form n"
  then obtain a where "n = a @ domain_suffix @ []"
    by (auto simp: addressing_form_def endsWith_iff)
  then have "\<exists>a b. n = a @ domain_suffix @ b" by blast
  then show ?thesis by (simp add: to_jid_containment)
qed

lemma send_message_forwards:
  "k \<noteq> [] \<Longrightarrow> n \<noteq> [] \<Longrightarrow> m \<noteq> [] \<Longrightarrow> sessions s k = Some c \<Longrightarrow>
   sendCalls (snd (send_message k n m ok s)) = sendCalls s @ [(c, to_jid n, Text m)]"
  by (simp add: send_message_def read_prop_def Let_def)

lemma send_file_url_forwards:
  "k \<noteq> [] \<Longrightarrow> n \<noteq> [] \<Longrightarrow> url \<noteq> [] \<Longrightarrow> sessions s k = Some c \<Longrightarrow>
   \<exists>mt fn. sendCalls (snd (send_file_url mx k n url cap cfn (Some (buf, ct)) ok s)) =
      sendCalls s @ [(c, to_jid n, Document buf mt fn cap)]"
  by (simp add: send_file_url_def read_prop_def Let_def)

lemma send_file_forwards:
  "k \<noteq> [] \<Longrightarrow> n \<noteq> [] \<Longrightarrow> sessions s k = Some c \<Longrightarrow>
   \<exists>mt fn. sendCalls (snd (send_file k n cap (Some f) (Some buf) ok s)) =
      sendCalls s @ [(c, to_jid n, Document buf mt fn cap)]"
  by (simp add: send_file_def read_prop_def Let_def)

text \<open>
  Claim C8, as stated: a recipient already in the addressing form is forwarded unchanged,
  and every other recipient gets the domain suffix appended. The recipient below is not
  in the addressing form, since it does not end with the suffix, and yet it is forwarded
  as it is: the source tests containment, not the ending.
\<close>

theorem to_jid_substring_counterexample:
  "\<not> addressing_form ''1555@s.whatsapp.net.x'' \<and>
   to_jid ''1555@s.whatsapp.net.x'' = ''1555@s.whatsapp.net.x'' \<and>
   to_jid ''1555@s.whatsapp.net.x'' \<noteq> spec_to_jid ''1555@s.whatsapp.net.x''"
  by (simp add: spec_to_jid_def addressing_form_def endsWith_def to_jid_def domain_suffix_def)

text \<open>
  Claim C8, amended: in each of the three send operations with a live handle, the
  recipient is forwarded unchanged when it contains the domain suffix anywhere, which
  covers every recipient in the addressing form, and otherwise the suffix is appended;
  the recipient 1555 is forwarded as 1555 followed by the suffix.
\<close>

theorem recipient_normalisation:
  "to_jid n = (if (\<exists>a b. n = a @ domain_suffix @ b) then n else n @ domain_suffix) \<and>
   (addressing_form n \<longrightarrow> to_jid n = n) \<and>
   (k \<noteq> [] \<and> n \<noteq> [] \<and> m \<noteq> [] \<and> sessions s k = Some c \<longrightarrow>
      sendCalls (snd (send_message k n m ok s)) = sendCalls s @ [(c, to_jid n, Text m)]) \<and>
   (k \<noteq> [] \<and> n \<noteq> [] \<and> url \<noteq> [] \<and> sessions s k = Some c \<longrightarrow>
      (\<exists>mt fn. sendCalls (snd (send_file_url mx k n url cap cfn (Some (buf, ct)) ok s)) =
         sendCalls s @ [(c, to_jid n, Document buf mt fn cap)])) \<and>
   (k \<noteq> [] \<and> n \<noteq> [] \<and> sessions s k = Some c \<longrightarrow>
      (\<exists>mt fn. sendCalls (snd (send_file k n cap (Some f) (Some buf) ok s)) =
         sendCalls s @ [(c, to_jid n, Document buf mt fn cap)]))"
  using to_jid_containment [of n] to_jid_addressing_form [of n]
    send_message_forwards [of k n m s c ok]
    send_file_url_forwards [of k n url s c mx cap cfn buf ct ok]
    send_file_forwards [of k n s c cap f buf ok]
  by blast

theorem recipient_normalisation_witness:
  "''alice'' \<noteq> [] \<and> ''1555'' \<noteq> [] \<and> ''hi'' \<noteq> [] \<and>
   sessions (initial\<lparr>sessions := [''alice'' \<mapsto> 0]\<rparr>) ''alice'' = Some 0 \<and>
   to_jid ''1555'' = ''1555@s.whatsapp.net'' \<and>
   sendCalls (snd (send_message ''alice'' ''1555'' ''hi'' True
                     (initial\<lparr>sessions := [''alice'' \<mapsto> 0]\<rparr>))) =
     [(0, ''1555@s.whatsapp.net'', Text ''hi'')]"
proof -
  have j: "to_jid ''1555'' = ''1555@s.whatsapp.net''"
    by (simp add: to_jid_def domain_suffix_def)
  have h: "sessions (initial\<lparr>sessions := [''alice'' \<mapsto> 0]\<rparr>) ''alice'' = Some 0"
    by simp
  show ?thesis
    using recipient_normalisation [of "''1555''" "''alice''" "''hi''"
        "initial\<lparr>sessions := [''alice'' \<mapsto> 0]\<rparr>" 0 True] h j
    by (simp add: initial_def)
qed

section \<open>Basic authentication\<close>












section \<open>QR retrieval and the expiry window\<close>

lemma age_exceeds:
  "((real_of_int a - real_of_int b) / 1000 > 60) \<longleftrightarrow> a - b > 60000"
  by auto

lemma age_floor: "\<lfloor>(real_of_int a - real_of_int b) / 1000\<rfloor> = (a - b) div 1000"
  using floor_divide_of_int_eq [of "a - b" 1000] by simp

lemma get_qr_expired:
  assumes "k \<noteq> []" and "\<not> (f \<and> is_connected (db s k) \<and> sessions s k \<noteq> None)"
    and "resolve_qr (qrCodes s k) (if f then db s k else None) = Some e"
    and "now - generatedAt e > 60000"
  shows "get_qr k now f ok s =
     (ReplyRestart ''QR code expired. Please restart the session.'',
      attempt ok (\<lambda>s'. s'\<lparr>db := findOneAndUpdate k upd_expire False (db s')\<rparr>)
        (s\<lparr>qrCodes := (qrCodes s)(k := None)\<rparr>))"
  using assms by (auto simp add: get_qr_def Let_def age_exceeds is_connected_def)

lemma get_qr_fresh:
  assumes "k \<noteq> []" and "\<not> (f \<and> is_connected (db s k) \<and> sessions s k \<noteq> None)"
    and "resolve_qr (qrCodes s k) (if f then db s k else None) = Some e"
    and "now - generatedAt e \<le> 60000"
  shows "get_qr k now f ok s = (ReplyQr (image e) (60 - (now - generatedAt e) div 1000), s)"
proof -
  have "60 - (now - generatedAt e) div 1000 \<ge> 0"
    using assms(4) by linarith
  then show ?thesis
    using assms by (auto simp add: get_qr_def Let_def age_exceeds age_floor is_connected_def)
qed

lemma expire_clears:
  "findOneAndUpdate k upd_expire False d k =
     map_option (\<lambda>x. x\<lparr>qr := None, qrGeneratedAt := None\<rparr>) (d k)"
  by (auto simp: findOneAndUpdate_def upd_expire_def apply_update_def split: option.splits)

text \<open>
  Claim C1, as stated, ends: retrieval at an age of exactly the window reports expired.
  With a cached payload issued at time 0 and a request at 60000 ms, the age is 60 s, the
  test is whether the age is greater than 60, and the payload is returned with zero
  seconds left.
\<close>

theorem qr_at_window_counterexample:
  "get_qr ''alice'' 60000 True True
     (initial\<lparr>qrCodes := [''alice'' \<mapsto> \<lparr>image = ''QR1'', generatedAt = 0\<rparr>]\<rparr>) =
   (ReplyQr ''QR1'' 0,
    initial\<lparr>qrCodes := [''alice'' \<mapsto> \<lparr>image = ''QR1'', generatedAt = 0\<rparr>]\<rparr>)"
  by (simp add: get_qr_def initial_def resolve_qr_def is_connected_def Let_def)

text \<open>
  Claim C1, amended: for every key that is not answered as already connected and whose
  pairing payload resolves, from the cache or the durable record, an age above the
  60-second window makes the operation delete the cache entry, null the durable qr and
  qrGeneratedAt fields when the store accepts the write, and report expired; no payload
  older than the window is returned; at an age of 59 s the payload is returned with one
  second left; and at an age of exactly 60 s the payload is still returned, with zero
  seconds left.
\<close>

theorem qr_expiry_window:
  assumes "k \<noteq> []"
    and "\<not> (f \<and> is_connected (db s k) \<and> sessions s k \<noteq> None)"
    and "resolve_qr (qrCodes s k) (if f then db s k else None) = Some e"
  shows "(now - generatedAt e > 60000 \<longrightarrow>
            fst (get_qr k now f ok s) =
              ReplyRestart ''QR code expired. Please restart the session.'' \<and>
            qrCodes (snd (get_qr k now f ok s)) k = None \<and>
            (ok \<longrightarrow> db (snd (get_qr k now f ok s)) k =
               map_option (\<lambda>x. x\<lparr>qr := None, qrGeneratedAt := None\<rparr>) (db s k))) \<and>
         (now - generatedAt e \<le> 60000 \<longrightarrow>
            get_qr k now f ok s =
              (ReplyQr (image e) (60 - (now - generatedAt e) div 1000), s)) \<and>
         (now - generatedAt e = 59000 \<longrightarrow> get_qr k now f ok s = (ReplyQr (image e) 1, s)) \<and>
         (now - generatedAt e = 60000 \<longrightarrow> get_qr k now f ok s = (ReplyQr (image e) 0, s)) \<and>
         (\<forall>img n s'. get_qr k now f ok s = (ReplyQr img n, s') \<longrightarrow>
            img = image e \<and> now - generatedAt e \<le> 60000)"
proof -
  have old: "now - generatedAt e > 60000 \<Longrightarrow>
      fst (get_qr k now f ok s) = ReplyRestart ''QR code expired. Please restart the session.'' \<and>
      qrCodes (snd (get_qr k now f ok s)) k = None \<and>
      (ok \<longrightarrow> db (snd (get_qr k now f ok s)) k =
         map_option (\<lambda>x. x\<lparr>qr := None, qrGeneratedAt := None\<rparr>) (db s k))"
    using get_qr_expired [OF assms] by (simp add: attempt_def expire_clears)
  have fresh: "now - generatedAt e \<le> 60000 \<Longrightarrow>
      get_qr k now f ok s = (ReplyQr (image e) (60 - (now - generatedAt e) div 1000), s)"
    using get_qr_fresh [OF assms] by simp
  have at59: "now - generatedAt e = 59000 \<Longrightarrow> get_qr k now f ok s = (ReplyQr (image e) 1, s)"
    using fresh by simp
  have at60: "now - generatedAt e = 60000 \<Longrightarrow> get_qr k now f ok s = (ReplyQr (image e) 0, s)"
    using fresh by simp
  have never: "get_qr k now f ok s = (ReplyQr img n, s') \<Longrightarrow>
      img = image e \<and> now - generatedAt e \<le> 60000" for img n s'
  proof (cases "now - generatedAt e > 60000")
    case True
    assume "get_qr k now f ok s = (ReplyQr img n, s')"
    with old [OF True] show ?thesis by simp
  next
    case False
    assume "get_qr k now f ok s = (ReplyQr img n, s')"
    with fresh False show ?thesis by simp
  qed
  show ?thesis
    using old fresh at59 at60 never by blast
qed

theorem qr_expiry_window_witness:
  "''alice'' \<noteq> [] \<and>
   \<not> (True \<and>
      is_connected (db (initial\<lparr>db := [''alice'' \<mapsto>
        \<lparr>connected = False, qr = Some ''QR1'', qrGeneratedAt = Some 0\<rparr>]\<rparr>) ''alice'') \<and>
      sessions (initial\<lparr>db := [''alice'' \<mapsto>
        \<lparr>connected = False, qr = Some ''QR1'', qrGeneratedAt = Some 0\<rparr>]\<rparr>) ''alice'' \<noteq> None) \<and>
   resolve_qr
     (qrCodes (initial\<lparr>db := [''alice'' \<mapsto>
        \<lparr>connected = False, qr = Some ''QR1'', qrGeneratedAt = Some 0\<rparr>]\<rparr>) ''alice'')
     (if True then db (initial\<lparr>db := [''alice'' \<mapsto>
        \<lparr>connected = False, qr = Some ''QR1'', qrGeneratedAt = Some 0\<rparr>]\<rparr>) ''alice''
      else None) = Some \<lparr>image = ''QR1'', generatedAt = 0\<rparr> \<and>
   fst (get_qr ''alice'' 60001 True True (initial\<lparr>db := [''alice'' \<mapsto>
        \<lparr>connected = False, qr = Some ''QR1'', qrGeneratedAt = Some 0\<rparr>]\<rparr>)) =
     ReplyRestart ''QR code expired. Please restart the session.'' \<and>
   db (snd (get_qr ''alice'' 60001 True True (initial\<lparr>db := [''alice'' \<mapsto>
        \<lparr>connected = False, qr = Some ''QR1'', qrGeneratedAt = Some 0\<rparr>]\<rparr>))) ''alice'' =
     Some \<lparr>connected = False, qr = None, qrGeneratedAt = None\<rparr>"
proof -
  define s where "s = initial\<lparr>db := [''alice'' \<mapsto>
        \<lparr>connected = False, qr = Some ''QR1'', qrGeneratedAt = Some 0\<rparr>]\<rparr>"
  have 1: "\<not> (True \<and> is_connected (db s ''alice'') \<and> sessions s ''alice'' \<noteq> None)"
    by (simp add: s_def is_connected_def)
  have 2: "resolve_qr (qrCodes s ''alice'') (if True then db s ''alice'' else None) =
             Some \<lparr>image = ''QR1'', generatedAt = 0\<rparr>"
    by (simp add: s_def initial_def resolve_qr_def)
  have 3: "db s ''alice'' = Some \<lparr>connected = False, qr = Some ''QR1'', qrGeneratedAt = Some 0\<rparr>"
    by (simp add: s_def)
  have "fst (get_qr ''alice'' 60001 True True s) =
          ReplyRestart ''QR code expired. Please restart the session.'' \<and>
        db (snd (get_qr ''alice'' 60001 True True s)) ''alice'' =
          Some \<lparr>connected = False, qr = None, qrGeneratedAt = None\<rparr>"
    using qr_expiry_window [of "''alice''" True s "\<lparr>image = ''QR1'', generatedAt = 0\<rparr>" 60001 True,
        OF _ 1 2] 3
    by simp
  with 1 2 show ?thesis
    unfolding s_def by simp
qed

section \<open>Logout\<close>

text \<open>
  Claim C7: for every key with no live handle in the registry, logout calls no
  \<^verbatim>\<open>logout()\<close> of the protocol client, creates no socket and sends nothing, leaves no
  registry or cache entry for the key, removes the key's directory and its durable record
  when the file system and the store accept the removal, and returns a success result.
\<close>

theorem logout_without_handle:
  assumes "k \<noteq> []" and "sessions s k = None"
  shows "fst (logoutInstance k r d s) =
           (''success'', ''Instance '' @ k @ '' logged out and session removed.'') \<and>
         logoutCalls (snd (logoutInstance k r d s)) = logoutCalls s \<and>
         sendCalls (snd (logoutInstance k r d s)) = sendCalls s \<and>
         nextSock (snd (logoutInstance k r d s)) = nextSock s \<and>
         sessions (snd (logoutInstance k r d s)) k = None \<and>
         qrCodes (snd (logoutInstance k r d s)) k = None \<and>
         (r \<longrightarrow> k \<notin> folders (snd (logoutInstance k r d s))) \<and>
         (d \<longrightarrow> db (snd (logoutInstance k r d s)) k = None) \<and>
         fst (logout_route k r d s) =
           ReplyStatus 200 ''success'' (''Instance '' @ k @ '' logged out and session removed.'')"
  using assms
  by (auto simp add: logoutInstance_def logout_route_def Let_def attempt_def findOneAndDelete_def)

theorem logout_without_handle_witness:
  "''bob'' \<noteq> [] \<and>
   sessions (initial\<lparr>qrCodes := [''bob'' \<mapsto> \<lparr>image = ''QR1'', generatedAt = 0\<rparr>],
                      db := [''bob'' \<mapsto> default_doc], folders := {''bob''}\<rparr>) ''bob'' = None \<and>
   logoutCalls (snd (logoutInstance ''bob'' True True
     (initial\<lparr>qrCodes := [''bob'' \<mapsto> \<lparr>image = ''QR1'', generatedAt = 0\<rparr>],
              db := [''bob'' \<mapsto> default_doc], folders := {''bob''}\<rparr>))) = [] \<and>
   qrCodes (snd (logoutInstance ''bob'' True True
     (initial\<lparr>qrCodes := [''bob'' \<mapsto> \<lparr>image = ''QR1'', generatedAt = 0\<rparr>],
              db := [''bob'' \<mapsto> default_doc], folders := {''bob''}\<rparr>))) ''bob'' = None \<and>
   ''bob'' \<notin> folders (snd (logoutInstance ''bob'' True True
     (initial\<lparr>qrCodes := [''bob'' \<mapsto> \<lparr>image = ''QR1'', generatedAt = 0\<rparr>],
              db := [''bob'' \<mapsto> default_doc], folders := {''bob''}\<rparr>))) \<and>
   db (snd (logoutInstance ''bob'' True True
     (initial\<lparr>qrCodes := [''bob'' \<mapsto> \<lparr>image = ''QR1'', generatedAt = 0\<rparr>],
              db := [''bob'' \<mapsto> default_doc], folders := {''bob''}\<rparr>))) ''bob'' = None \<and>
   fst (logout_route ''bob'' True True initial) =
     ReplyStatus 200 ''success'' ''Instance bob logged out and session removed.''"
proof -
  define s where "s = initial\<lparr>qrCodes := [''bob'' \<mapsto> \<lparr>image = ''QR1'', generatedAt = 0\<rparr>],
                      db := [''bob'' \<mapsto> default_doc], folders := {''bob''}\<rparr>"
  have 1: "sessions s ''bob'' = None"
    by (simp add: s_def initial_def)
  have 2: "sessions initial ''bob'' = None"
    by (simp add: initial_def)
  have 3: "logoutCalls s = []"
    by (simp add: s_def initial_def)
  show ?thesis
    using logout_without_handle [of "''bob''" s True True, OF _ 1]
      logout_without_handle [of "''bob''" initial True True, OF _ 2] 1 3
    unfolding s_def by simp
qed

section \<open>Evaluating sample runs\<close>

lemmas run_simps = run_def boot_def initial_def pair_alice_def conn_ok_def qr_event_def
  open_event_def close_event_def start_session_def start_session_reply_def init_enter_def
  init_resume_def init_finally_def init_catch_def connection_update_def on_qr_def on_open_def
  on_close_def close_cleanup_def attempt_def findOneAndUpdate_def findOneAndDelete_def
  apply_update_def upd_reset_def upd_open_def upd_qr_def upd_expire_def default_doc_def
  timer_fire_def logout_route_def logoutInstance_def is_connected_def loggedOut_def
  reconnect_delay_def Let_def

section \<open>The durable-record invariant\<close>

lemma doc_ok_updates:
  "doc_ok (apply_update upd_reset x)"
  "doc_ok (apply_update upd_open x)"
  "doc_ok (apply_update (upd_qr img t) x)"
  "doc_ok x \<Longrightarrow> doc_ok (apply_update upd_expire x)"
  by (auto simp: doc_ok_def apply_update_def upd_reset_def upd_open_def upd_qr_def
      upd_expire_def truthy_def)

lemma doc_ok_default: "doc_ok (apply_update upd_expire default_doc)"
  by (simp add: doc_ok_def apply_update_def upd_expire_def default_doc_def truthy_def)

lemma store_inv_writes:
  assumes "store_inv d"
  shows "store_inv (findOneAndUpdate k upd_reset b d)"
    and "store_inv (findOneAndUpdate k upd_open b d)"
    and "store_inv (findOneAndUpdate k (upd_qr img t) b d)"
    and "store_inv (findOneAndUpdate k upd_expire b d)"
    and "store_inv (findOneAndDelete k d)"
  using assms
  by (auto simp: store_inv_def findOneAndUpdate_def findOneAndDelete_def doc_ok_updates
      doc_ok_default split: option.splits if_splits)

lemma db_init_enter: "db (snd (init_enter k m s)) = db s"
  by (simp add: init_enter_def init_finally_def init_catch_def Let_def)

lemma db_init_resume: "db (snd (init_resume k a b s)) = db s"
  by (simp add: init_resume_def init_finally_def init_catch_def Let_def)

lemma snd_start_session:
  "snd (start_session k a b c s) =
     (if k = [] \<or> (sessions s k \<noteq> None \<and> a \<and> is_connected (db s k)) \<or>
         k \<in> initializingSessions s
      then s
      else snd (init_enter k c
             (attempt b (\<lambda>s'. s'\<lparr>db := findOneAndUpdate k upd_reset True (db s')\<rparr>) s)))"
  by (auto simp add: start_session_def Let_def case_prod_beta)

lemma store_on_qr: "store_inv (db s) \<Longrightarrow> store_inv (db (on_qr k u io s))"
  by (simp add: on_qr_def attempt_def store_inv_writes split: option.splits)

lemma store_on_open: "store_inv (db s) \<Longrightarrow> store_inv (db (on_open k u io s))"
  by (simp add: on_open_def attempt_def store_inv_writes)

lemma store_close_cleanup: "store_inv (db s) \<Longrightarrow> store_inv (db (close_cleanup k io s))"
  by (simp add: close_cleanup_def attempt_def store_inv_writes)

lemma store_on_close: "store_inv (db s) \<Longrightarrow> store_inv (db (on_close k u io s))"
  by (simp add: on_close_def attempt_def Let_def store_inv_writes store_close_cleanup)

lemma store_connection_update:
  "store_inv (db s) \<Longrightarrow> store_inv (db (connection_update k u io s))"
  by (simp add: connection_update_def store_on_qr store_on_open store_on_close)

lemma store_start_session:
  "store_inv (db s) \<Longrightarrow> store_inv (db (snd (start_session k a b c s)))"
  by (simp add: snd_start_session db_init_enter attempt_def store_inv_writes)

lemma store_get_qr: "store_inv (db s) \<Longrightarrow> store_inv (db (snd (get_qr k t a b s)))"
  by (simp add: get_qr_def attempt_def Let_def store_inv_writes split: option.splits)

lemma store_logout: "store_inv (db s) \<Longrightarrow> store_inv (db (snd (logout_route k a b s)))"
  by (simp add: logout_route_def logoutInstance_def attempt_def Let_def store_inv_writes
      split: option.splits)

lemma store_timer: "store_inv (db s) \<Longrightarrow> store_inv (db (timer_fire k m s))"
  by (simp add: timer_fire_def db_init_enter)

lemma store_send: "store_inv (db s) \<Longrightarrow> store_inv (db (snd (send_message k n m ok s)))"
  by (simp add: send_message_def Let_def split: js_read.splits)

lemma store_effect: "store_inv (db s) \<Longrightarrow> store_inv (db (apply_effect k e s))"
proof (cases e)
  case (StoreUpdate w upsert)
  assume "store_inv (db s)"
  then have "store_inv (findOneAndUpdate k (update_of w) upsert (db s))"
    by (cases w) (simp_all add: update_of_def store_inv_writes)
  with StoreUpdate show ?thesis by simp
qed (simp_all add: store_inv_writes)

lemma store_step: "store_inv (db s) \<Longrightarrow> store_inv (db (step e s))"
  by (cases e)
    (simp_all add: store_start_session db_init_enter db_init_resume store_timer
      store_connection_update store_logout store_get_qr store_send store_effect attempt_def
      store_inv_writes)

text \<open>
  Claim C4: after every sequence of lifecycle events and operations, interleaved at
  their suspension points in any way and started from a store whose records are well
  formed (the empty store of a first start among them), no durable record is both
  connected and holding a non-empty pairing payload, and every record holds qrGeneratedAt
  exactly when it holds qr.
\<close>

theorem durable_record_invariant:
  assumes "store_inv (db s)"
  shows "store_inv (db (run evs s)) \<and>
         (\<forall>k doc. db (run evs s) k = Some doc \<longrightarrow>
            \<not> (connected doc \<and> truthy (qr doc)) \<and>
            (qrGeneratedAt doc \<noteq> None \<longleftrightarrow> qr doc \<noteq> None))"
proof -
  have "store_inv (db (fold step evs s))"
    using assms by (induction evs arbitrary: s) (simp_all add: store_step)
  then have "store_inv (db (run evs s))"
    by (simp add: run_def)
  then show ?thesis
    by (simp add: store_inv_def doc_ok_def)
qed

theorem durable_record_invariant_witness:
  "store_inv (db (boot Map.empty {})) \<and>
   store_inv (db (run pair_alice (boot Map.empty {}))) \<and>
   db (run (take 3 pair_alice) (boot Map.empty {})) ''alice'' =
     Some \<lparr>connected = False, qr = Some ''data:QR'', qrGeneratedAt = Some 1000\<rparr> \<and>
   db (run pair_alice (boot Map.empty {})) ''alice'' =
     Some \<lparr>connected = True, qr = None, qrGeneratedAt = None\<rparr>"
proof -
  have 1: "store_inv (db (boot Map.empty {}))"
    by (simp add: store_inv_def boot_def)
  have 2: "db (run (take 3 pair_alice) (boot Map.empty {})) ''alice'' =
     Some \<lparr>connected = False, qr = Some ''data:QR'', qrGeneratedAt = Some 1000\<rparr>"
    by (simp add: run_simps)
  have 3: "db (run pair_alice (boot Map.empty {})) ''alice'' =
     Some \<lparr>connected = True, qr = None, qrGeneratedAt = None\<rparr>"
    by (simp add: run_simps)
  show ?thesis
    using durable_record_invariant [OF 1, of pair_alice] 1 2 3 by simp
qed

section \<open>The creation guard and a concurrent start\<close>

lemma guard_init_enter: "guard_inv s \<Longrightarrow> guard_inv (snd (init_enter k m s))"
  by (auto simp add: guard_inv_def init_enter_def init_finally_def init_catch_def Let_def)

lemma guard_init_resume: "guard_inv s \<Longrightarrow> guard_inv (snd (init_resume k a b s))"
  by (auto simp add: guard_inv_def init_resume_def init_finally_def init_catch_def Let_def)

lemma guard_db: "guard_inv (s\<lparr>db := d\<rparr>) = guard_inv s"
  by (simp add: guard_inv_def)

lemma guard_timers: "guard_inv (s\<lparr>timers := d\<rparr>) = guard_inv s"
  by (simp add: guard_inv_def)

lemma guard_start_session: "guard_inv s \<Longrightarrow> guard_inv (snd (start_session k a b c s))"
  by (simp add: snd_start_session guard_init_enter attempt_def guard_db)

lemma guard_timer: "guard_inv s \<Longrightarrow> guard_inv (timer_fire k m s)"
  by (simp add: timer_fire_def guard_init_enter guard_timers)

lemma guard_on_qr: "guard_inv s \<Longrightarrow> guard_inv (on_qr k u io s)"
  by (auto simp add: guard_inv_def on_qr_def attempt_def split: option.splits)

lemma guard_on_open: "guard_inv s \<Longrightarrow> guard_inv (on_open k u io s)"
  by (auto simp add: guard_inv_def on_open_def attempt_def)

lemma guard_close_cleanup: "guard_inv s \<Longrightarrow> guard_inv (close_cleanup k io s)"
  by (auto simp add: guard_inv_def close_cleanup_def attempt_def)

lemma guard_on_close:
  assumes g: "guard_inv s"
  shows "guard_inv (on_close k u io s)"
proof -
  have 1: "guard_inv (s\<lparr>sessions := (sessions s)(k := None), qrCodes := (qrCodes s)(k := None)\<rparr>)"
    using g by (auto simp: guard_inv_def)
  have 2: "guard_inv
      (attempt (closeStoreOk io)
         (\<lambda>s'. s'\<lparr>db := findOneAndUpdate k upd_reset False (db s')\<rparr>)
         (s\<lparr>sessions := (sessions s)(k := None), qrCodes := (qrCodes s)(k := None)\<rparr>))"
    using 1 by (simp add: attempt_def guard_db)
  show ?thesis
    using g 2 guard_close_cleanup [OF 2, of k io]
    by (simp add: on_close_def Let_def guard_timers)
qed

lemma guard_connection_update: "guard_inv s \<Longrightarrow> guard_inv (connection_update k u io s)"
  by (simp add: connection_update_def guard_on_qr guard_on_open guard_on_close)

lemma guard_logout: "guard_inv s \<Longrightarrow> guard_inv (snd (logout_route k a b s))"
  by (auto simp add: guard_inv_def logout_route_def logoutInstance_def attempt_def Let_def
      split: option.splits)

lemma guard_get_qr: "guard_inv s \<Longrightarrow> guard_inv (snd (get_qr k t a b s))"
  by (auto simp add: guard_inv_def get_qr_def attempt_def Let_def split: option.splits)

lemma guard_send: "guard_inv s \<Longrightarrow> guard_inv (snd (send_message k n m ok s))"
  by (auto simp add: guard_inv_def send_message_def Let_def split: js_read.splits)

lemma guard_effect: "guard_inv s \<Longrightarrow> guard_inv (apply_effect k e s)"
  by (cases e) (auto simp add: guard_inv_def)

lemma guard_step: "guard_inv s \<Longrightarrow> guard_inv (step e s)"
  by (cases e)
    (simp_all add: guard_start_session guard_init_enter guard_init_resume guard_timer
      guard_connection_update guard_logout guard_get_qr guard_send guard_effect attempt_def
      guard_db)

lemma guard_run: "guard_inv s \<Longrightarrow> guard_inv (run evs s)"
  unfolding run_def
  by (induction evs arbitrary: s) (simp_all add: guard_step)

lemma guard_boot: "guard_inv (boot d f)"
  by (simp add: guard_inv_def boot_def initial_def)

text \<open>
  Claim C6: in every state the process can reach, a start-session request for a key whose
  creation guard is set is answered with status 200, success, the message that the
  session is currently initializing, and connected false; the state is left as it was, so
  the request creates no socket, enters no creation sequence and writes nothing to the
  store. A guarded key has no live handle in any reachable state, so the handler reaches
  its guard check without suspending.
\<close>

theorem concurrent_start_reports_initializing:
  assumes "k \<in> initializingSessions (run evs (boot d f))"
  shows "start_session k a b c (run evs (boot d f)) =
           (Some (Reply 200 True (''Session '' @ k @ '' is currently initializing...'')
                    (Some False)),
            run evs (boot d f))"
proof -
  have "guard_inv (run evs (boot d f))"
    by (simp add: guard_run guard_boot)
  with assms have "k \<noteq> []" and "sessions (run evs (boot d f)) k = None"
    by (auto simp: guard_inv_def)
  with assms show ?thesis
    by (simp add: start_session_def)
qed

theorem concurrent_start_reports_initializing_witness:
  "''alice'' \<in> initializingSessions
      (run [StartSession ''alice'' True True True] (boot Map.empty {})) \<and>
   pending (run [StartSession ''alice'' True True True] (boot Map.empty {})) = [''alice''] \<and>
   start_session ''alice'' True True True
      (run [StartSession ''alice'' True True True] (boot Map.empty {})) =
     (Some (Reply 200 True ''Session alice is currently initializing...'' (Some False)),
      run [StartSession ''alice'' True True True] (boot Map.empty {}))"
proof -
  have 1: "''alice'' \<in> initializingSessions
      (run [StartSession ''alice'' True True True] (boot Map.empty {}))"
    by (simp add: run_simps)
  have 2: "pending (run [StartSession ''alice'' True True True] (boot Map.empty {})) =
      [''alice'']"
    by (simp add: run_simps)
  show ?thesis
    using concurrent_start_reports_initializing [OF 1, of True True True] 1 2 by simp
qed

section \<open>Close events\<close>

lemma close_logged_out:
  assumes "rmOk io" and "deleteOk io"
  shows "db (connection_update k (close_event (Some loggedOut)) io s) k = None"
    and "k \<notin> folders (connection_update k (close_event (Some loggedOut)) io s)"
    and "sessions (connection_update k (close_event (Some loggedOut)) io s) k = None"
    and "qrCodes (connection_update k (close_event (Some loggedOut)) io s) k = None"
    and "timers (connection_update k (close_event (Some loggedOut)) io s) = timers s"
    and "pending (connection_update k (close_event (Some loggedOut)) io s) = pending s"
    and "nextSock (connection_update k (close_event (Some loggedOut)) io s) = nextSock s"
  using assms
  by (simp_all add: connection_update_def on_qr_def on_open_def on_close_def close_event_def
      close_cleanup_def attempt_def findOneAndDelete_def Let_def)

lemma reset_record:
  "findOneAndUpdate k upd_reset False d k =
     map_option (\<lambda>x. x\<lparr>connected := False, qr := None, qrGeneratedAt := None\<rparr>) (d k)"
  by (auto simp: findOneAndUpdate_def upd_reset_def apply_update_def split: option.splits)

lemma close_recoverable:
  assumes "sc \<noteq> Some loggedOut"
  shows "sessions (connection_update k (close_event sc) io s) k = None"
    and "qrCodes (connection_update k (close_event sc) io s) k = None"
    and "timers (connection_update k (close_event sc) io s) = timers s @ [(k, reconnect_delay)]"
    and "folders (connection_update k (close_event sc) io s) = folders s"
    and "initializingSessions (connection_update k (close_event sc) io s) =
           initializingSessions s"
    and "pending (connection_update k (close_event sc) io s) = pending s"
    and "db (connection_update k (close_event sc) io s) k = None \<longleftrightarrow> db s k = None"
    and "closeStoreOk io \<Longrightarrow> db (connection_update k (close_event sc) io s) k =
           map_option (\<lambda>x. x\<lparr>connected := False, qr := None, qrGeneratedAt := None\<rparr>) (db s k)"
  using assms
  by (simp_all add: connection_update_def on_qr_def on_open_def on_close_def close_event_def
      attempt_def reset_record Let_def)

lemma timer_enters_creation:
  assumes "k \<noteq> []" and "sessions s k = None" and "k \<notin> initializingSessions s"
    and "(k, reconnect_delay) \<in> set (timers s)"
  shows "initializingSessions (timer_fire k True s) = insert k (initializingSessions s)"
    and "pending (timer_fire k True s) = pending s @ [k]"
    and "folders (timer_fire k True s) = insert k (folders s)"
    and "db (timer_fire k True s) = db s"
    and "sessions (timer_fire k True s) = sessions s"
    and "nextSock (timer_fire k True s) = nextSock s"
  using assms by (simp_all add: timer_fire_def init_enter_def Let_def)

text \<open>
  Claim C5: a close event whose status code is that of a remote logout leaves no live
  handle and no cache entry, deletes the key's directory and durable record when the file
  system and the store accept it, and sets no timer and starts no creation; a close event
  with any other reason removes the live handle and the cache entry, neither deletes nor
  creates the durable record, resets a present record to connected false with no payload
  when the store accepts the write, and sets a timer of 5000 ms whose firing enters a
  creation sequence for the key.
\<close>

theorem close_event_dichotomy:
  "(rmOk io \<and> deleteOk io \<longrightarrow>
      db (connection_update k (close_event (Some loggedOut)) io s) k = None \<and>
      k \<notin> folders (connection_update k (close_event (Some loggedOut)) io s) \<and>
      sessions (connection_update k (close_event (Some loggedOut)) io s) k = None \<and>
      qrCodes (connection_update k (close_event (Some loggedOut)) io s) k = None \<and>
      timers (connection_update k (close_event (Some loggedOut)) io s) = timers s \<and>
      pending (connection_update k (close_event (Some loggedOut)) io s) = pending s \<and>
      nextSock (connection_update k (close_event (Some loggedOut)) io s) = nextSock s) \<and>
   (sc \<noteq> Some loggedOut \<longrightarrow>
      sessions (connection_update k (close_event sc) io s) k = None \<and>
      qrCodes (connection_update k (close_event sc) io s) k = None \<and>
      (db (connection_update k (close_event sc) io s) k = None \<longleftrightarrow> db s k = None) \<and>
      (closeStoreOk io \<longrightarrow>
         db (connection_update k (close_event sc) io s) k =
           map_option (\<lambda>x. x\<lparr>connected := False, qr := None, qrGeneratedAt := None\<rparr>) (db s k)) \<and>
      folders (connection_update k (close_event sc) io s) = folders s \<and>
      timers (connection_update k (close_event sc) io s) = timers s @ [(k, 5000)] \<and>
      (k \<noteq> [] \<and> k \<notin> initializingSessions s \<longrightarrow>
         k \<in> initializingSessions (timer_fire k True (connection_update k (close_event sc) io s)) \<and>
         pending (timer_fire k True (connection_update k (close_event sc) io s)) =
           pending s @ [k]))"
proof -
  have lo: "rmOk io \<and> deleteOk io \<longrightarrow>
      db (connection_update k (close_event (Some loggedOut)) io s) k = None \<and>
      k \<notin> folders (connection_update k (close_event (Some loggedOut)) io s) \<and>
      sessions (connection_update k (close_event (Some loggedOut)) io s) k = None \<and>
      qrCodes (connection_update k (close_event (Some loggedOut)) io s) k = None \<and>
      timers (connection_update k (close_event (Some loggedOut)) io s) = timers s \<and>
      pending (connection_update k (close_event (Some loggedOut)) io s) = pending s \<and>
      nextSock (connection_update k (close_event (Some loggedOut)) io s) = nextSock s"
    using close_logged_out [where io = io and k = k and s = s] by blast
  have rec: "sc \<noteq> Some loggedOut \<Longrightarrow>
      sessions (connection_update k (close_event sc) io s) k = None \<and>
      qrCodes (connection_update k (close_event sc) io s) k = None \<and>
      (db (connection_update k (close_event sc) io s) k = None \<longleftrightarrow> db s k = None) \<and>
      (closeStoreOk io \<longrightarrow>
         db (connection_update k (close_event sc) io s) k =
           map_option (\<lambda>x. x\<lparr>connected := False, qr := None, qrGeneratedAt := None\<rparr>) (db s k)) \<and>
      folders (connection_update k (close_event sc) io s) = folders s \<and>
      timers (connection_update k (close_event sc) io s) = timers s @ [(k, 5000)]"
    using close_recoverable [where sc = sc and k = k and io = io and s = s]
    by (simp add: reconnect_delay_def)
  have fire: "sc \<noteq> Some loggedOut \<Longrightarrow> k \<noteq> [] \<Longrightarrow> k \<notin> initializingSessions s \<Longrightarrow>
      k \<in> initializingSessions (timer_fire k True (connection_update k (close_event sc) io s)) \<and>
      pending (timer_fire k True (connection_update k (close_event sc) io s)) = pending s @ [k]"
  proof -
    assume a: "sc \<noteq> Some loggedOut" "k \<noteq> []" "k \<notin> initializingSessions s"
    let ?s = "connection_update k (close_event sc) io s"
    have 1: "sessions ?s k = None" "k \<notin> initializingSessions ?s"
      "(k, reconnect_delay) \<in> set (timers ?s)" "pending ?s = pending s"
      using close_recoverable [OF a(1), where k = k and io = io and s = s] a(3) by simp_all
    show ?thesis
      using timer_enters_creation(1,2) [OF a(2) 1(1) 1(2) 1(3)] 1(4) by simp
  qed
  show ?thesis
    using lo rec fire by blast
qed

theorem close_event_dichotomy_witness:
  "rmOk conn_ok \<and> deleteOk conn_ok \<and> closeStoreOk conn_ok \<and> Some 428 \<noteq> Some loggedOut \<and>
   ''alice'' \<noteq> [] \<and> ''alice'' \<notin> initializingSessions (run pair_alice (boot Map.empty {})) \<and>
   sessions (run pair_alice (boot Map.empty {})) ''alice'' = Some 0 \<and>
   db (connection_update ''alice'' (close_event (Some loggedOut)) conn_ok
         (run pair_alice (boot Map.empty {}))) ''alice'' = None \<and>
   timers (connection_update ''alice'' (close_event (Some loggedOut)) conn_ok
         (run pair_alice (boot Map.empty {}))) = [] \<and>
   sessions (connection_update ''alice'' (close_event (Some 428)) conn_ok
         (run pair_alice (boot Map.empty {}))) ''alice'' = None \<and>
   db (connection_update ''alice'' (close_event (Some 428)) conn_ok
         (run pair_alice (boot Map.empty {}))) ''alice'' =
     Some \<lparr>connected = False, qr = None, qrGeneratedAt = None\<rparr> \<and>
   timers (connection_update ''alice'' (close_event (Some 428)) conn_ok
         (run pair_alice (boot Map.empty {}))) = [(''alice'', 5000)] \<and>
   pending (timer_fire ''alice'' True
      (connection_update ''alice'' (close_event (Some 428)) conn_ok
         (run pair_alice (boot Map.empty {})))) = [''alice'']"
proof -
  define s where "s = run pair_alice (boot Map.empty {})"
  have 1: "rmOk conn_ok \<and> deleteOk conn_ok \<and> closeStoreOk conn_ok \<and>
           Some 428 \<noteq> Some loggedOut"
    by (simp add: conn_ok_def loggedOut_def)
  have 2: "''alice'' \<notin> initializingSessions s" "sessions s ''alice'' = Some 0"
    "db s ''alice'' = Some \<lparr>connected = True, qr = None, qrGeneratedAt = None\<rparr>"
    "timers s = []" "pending s = []"
    by (simp_all add: s_def run_simps)
  show ?thesis
    using close_event_dichotomy [where io = conn_ok and k = "''alice''" and s = s
        and sc = "Some 428"] 1 2
    unfolding s_def by simp
qed

section \<open>Send gating\<close>

lemma read_prop_missing: "(read_prop obj k = Missing) = (obj k = None \<and> \<not> inherited k)"
  by (simp add: read_prop_def split: option.splits)












section \<open>The initialization guard under overlapping calls\<close>

text \<open>
  Claim C3 says that the guard is cleared exactly once, when the creation sequence that
  set it ends, and that a second call returning early does not clear it. In the run
  below the connection of alice is lost and a reconnect timer is set. A start-session
  request enters a creation sequence: the guard is set and the sequence is suspended.
  The timer fires meanwhile; its call of initWhatsApp returns early and its
  \<^verbatim>\<open>finally\<close> deletes the guard, with the first sequence still suspended. A further
  start-session request then finds no guard and enters a second creation sequence; both
  sequences end with a new socket each, and the first of the two is left unregistered.
\<close>

theorem early_return_clears_guard:
  "''alice'' \<in> initializingSessions
      (run (reconnect_pending @ [StartSession ''alice'' True True True]) (boot Map.empty {})) \<and>
   pending (run (reconnect_pending @ [StartSession ''alice'' True True True])
      (boot Map.empty {})) = [''alice''] \<and>
   ''alice'' \<notin> initializingSessions
      (run (reconnect_pending @ [StartSession ''alice'' True True True, TimerFire ''alice'' True])
         (boot Map.empty {})) \<and>
   pending (run (reconnect_pending @ [StartSession ''alice'' True True True,
      TimerFire ''alice'' True]) (boot Map.empty {})) = [''alice''] \<and>
   pending (run (reconnect_pending @ [StartSession ''alice'' True True True,
      TimerFire ''alice'' True, StartSession ''alice'' True True True])
      (boot Map.empty {})) = [''alice'', ''alice''] \<and>
   nextSock (run (reconnect_pending @ [StartSession ''alice'' True True True,
      TimerFire ''alice'' True, StartSession ''alice'' True True True,
      InitResume ''alice'' True True, InitResume ''alice'' True True])
      (boot Map.empty {})) = 3 \<and>
   sessions (run (reconnect_pending @ [StartSession ''alice'' True True True,
      TimerFire ''alice'' True, StartSession ''alice'' True True True,
      InitResume ''alice'' True True, InitResume ''alice'' True True])
      (boot Map.empty {})) ''alice'' = Some 2"
  by (simp add: reconnect_pending_def run_simps)

section \<open>A reconnect timer that fires after logout\<close>

text \<open>
  Claim C2 says that a reconnect callback firing after a logout aborts without
  recreating the live handle or the durable record. In the run below alice is logged out
  while the reconnect timer is set: the record is deleted and the timer stays. When the
  timer fires, the creation sequence runs and registers a new socket; the next pairing
  event then upserts the durable record again.
\<close>

theorem reconnect_after_logout_counterexample:
  "db (run (reconnect_pending @ [Logout ''alice'' True True]) (boot Map.empty {})) ''alice'' =
     None \<and>
   sessions (run (reconnect_pending @ [Logout ''alice'' True True]) (boot Map.empty {}))
     ''alice'' = None \<and>
   timers (run (reconnect_pending @ [Logout ''alice'' True True]) (boot Map.empty {})) =
     [(''alice'', 5000)] \<and>
   sessions (run (reconnect_pending @ [Logout ''alice'' True True, TimerFire ''alice'' True,
      InitResume ''alice'' True True]) (boot Map.empty {})) ''alice'' = Some 1 \<and>
   ''alice'' \<in> folders (run (reconnect_pending @ [Logout ''alice'' True True,
      TimerFire ''alice'' True, InitResume ''alice'' True True]) (boot Map.empty {})) \<and>
   db (run (reconnect_pending @ [Logout ''alice'' True True, TimerFire ''alice'' True,
      InitResume ''alice'' True True, ConnUpdate ''alice'' (qr_event ''q2'') conn_ok])
      (boot Map.empty {})) ''alice'' =
     Some \<lparr>connected = False, qr = Some ''data:QR'', qrGeneratedAt = Some 1000\<rparr>"
  by (simp add: reconnect_pending_def run_simps)

lemma logout_effect:
  assumes "k \<noteq> []"
  shows "sessions (snd (logoutInstance k r True s)) k = None"
    and "db (snd (logoutInstance k r True s)) k = None"
    and "initializingSessions (snd (logoutInstance k r True s)) = initializingSessions s"
    and "timers (snd (logoutInstance k r True s)) = timers s"
    and "pending (snd (logoutInstance k r True s)) = pending s"
    and "nextSock (snd (logoutInstance k r True s)) = nextSock s"
  using assms
  by (simp_all add: logoutInstance_def attempt_def findOneAndDelete_def Let_def
      split: option.splits)

lemma timer_returns_early:
  assumes "k \<noteq> []" and "sessions s k \<noteq> None \<or> k \<in> initializingSessions s"
  shows "pending (timer_fire k m s) = pending s"
    and "nextSock (timer_fire k m s) = nextSock s"
    and "sessions (timer_fire k m s) = sessions s"
    and "db (timer_fire k m s) = db s"
  using assms
  by (auto simp add: timer_fire_def init_enter_def init_finally_def init_catch_def Let_def)

lemma resume_pending:
  assumes "k \<in> set (pending s)"
  shows "sessions (step (InitResume k True True) s) k = Some (nextSock s)"
    and "nextSock (step (InitResume k True True) s) = Suc (nextSock s)"
    and "db (step (InitResume k True True) s) = db s"
  using assms by (simp_all add: init_resume_def init_finally_def Let_def)

text \<open>
  Claim C2, amended: a reconnect callback that fires after a logout checks the registry
  only, the live handle and the guard, never the durable record. If it finds either, it
  returns without creating anything. After a logout, with no creation in flight, it finds
  neither: it sets the guard, recreates the key's directory and suspends on the auth
  material, and when that sequence resumes a new live handle is registered. The callback
  and the creation sequence write nothing to the store, so the durable record stays
  deleted until a later pairing or open event upserts it.
\<close>

theorem reconnect_checks_registry_only:
  assumes "k \<noteq> []" and "k \<notin> initializingSessions s"
    and "(k, reconnect_delay) \<in> set (timers s)"
  shows "db (snd (logoutInstance k r True s)) k = None \<and>
         sessions (snd (logoutInstance k r True s)) k = None \<and>
         k \<in> initializingSessions (timer_fire k True (snd (logoutInstance k r True s))) \<and>
         k \<in> folders (timer_fire k True (snd (logoutInstance k r True s))) \<and>
         pending (timer_fire k True (snd (logoutInstance k r True s))) = pending s @ [k] \<and>
         sessions (step (InitResume k True True)
                     (timer_fire k True (snd (logoutInstance k r True s)))) k =
           Some (nextSock s) \<and>
         nextSock (step (InitResume k True True)
                     (timer_fire k True (snd (logoutInstance k r True s)))) =
           Suc (nextSock s) \<and>
         db (step (InitResume k True True)
               (timer_fire k True (snd (logoutInstance k r True s)))) k = None \<and>
         (\<forall>s' m. sessions s' k \<noteq> None \<or> k \<in> initializingSessions s' \<longrightarrow>
            pending (timer_fire k m s') = pending s' \<and>
            nextSock (timer_fire k m s') = nextSock s' \<and>
            sessions (timer_fire k m s') = sessions s' \<and>
            db (timer_fire k m s') = db s')"
proof -
  let ?s1 = "snd (logoutInstance k r True s)"
  let ?s2 = "timer_fire k True ?s1"
  have l: "sessions ?s1 k = None" "db ?s1 k = None" "k \<notin> initializingSessions ?s1"
    "(k, reconnect_delay) \<in> set (timers ?s1)" "pending ?s1 = pending s"
    "nextSock ?s1 = nextSock s"
    using logout_effect [OF assms(1), of r s] assms(2,3) by simp_all
  have t: "k \<in> initializingSessions ?s2" "k \<in> folders ?s2" "pending ?s2 = pending s @ [k]"
    "db ?s2 k = None" "nextSock ?s2 = nextSock s"
    using timer_enters_creation [OF assms(1) l(1) l(3) l(4)] l(2,5,6) by simp_all
  have p: "k \<in> set (pending ?s2)"
    using t(3) by simp
  have r: "sessions (step (InitResume k True True) ?s2) k = Some (nextSock s)"
    "nextSock (step (InitResume k True True) ?s2) = Suc (nextSock s)"
    "db (step (InitResume k True True) ?s2) k = None"
    using resume_pending [OF p] t(4,5) by simp_all
  have e: "\<forall>s' m. sessions s' k \<noteq> None \<or> k \<in> initializingSessions s' \<longrightarrow>
            pending (timer_fire k m s') = pending s' \<and>
            nextSock (timer_fire k m s') = nextSock s' \<and>
            sessions (timer_fire k m s') = sessions s' \<and>
            db (timer_fire k m s') = db s'"
    using timer_returns_early [OF assms(1)] by blast
  show ?thesis
    using l(1,2) t(1,2,3) r e by blast
qed

theorem reconnect_checks_registry_only_witness:
  "''alice'' \<noteq> [] \<and>
   ''alice'' \<notin> initializingSessions (run reconnect_pending (boot Map.empty {})) \<and>
   (''alice'', reconnect_delay) \<in> set (timers (run reconnect_pending (boot Map.empty {}))) \<and>
   nextSock (run reconnect_pending (boot Map.empty {})) = 1 \<and>
   db (snd (logoutInstance ''alice'' True True (run reconnect_pending (boot Map.empty {}))))
     ''alice'' = None \<and>
   sessions (step (InitResume ''alice'' True True)
      (timer_fire ''alice'' True
         (snd (logoutInstance ''alice'' True True
            (run reconnect_pending (boot Map.empty {})))))) ''alice'' = Some 1 \<and>
   db (step (InitResume ''alice'' True True)
      (timer_fire ''alice'' True
         (snd (logoutInstance ''alice'' True True
            (run reconnect_pending (boot Map.empty {})))))) ''alice'' = None"
proof -
  define s where "s = run reconnect_pending (boot Map.empty {})"
  have 1: "''alice'' \<noteq> []"
    by simp
  have 2: "''alice'' \<notin> initializingSessions s"
    by (simp add: s_def reconnect_pending_def run_simps)
  have 3: "(''alice'', reconnect_delay) \<in> set (timers s)"
    by (simp add: s_def reconnect_pending_def run_simps)
  have 4: "nextSock s = 1"
    by (simp add: s_def reconnect_pending_def run_simps)
  show ?thesis
    using reconnect_checks_registry_only [OF 1 2 3, of True] 2 3 4
    unfolding s_def by (simp del: step.simps)
qed

end
